theory Spec2Isabelle
  imports Main
begin

section \<open>Values, exceptions and the container runtime\<close>

text \<open>
  The controller of \<^verbatim>\<open>main.py\<close> talks to a container engine through the docker
  client library, writes one file on the host and sleeps between state checks. The
  engine, the file system and the clock are not part of the program. They are
  modelled as capability functions over an abstract runtime state \<open>'r\<close>: every call
  takes the runtime state and returns either the exception the library raises or its
  result, together with the next runtime state. Console output (\<^verbatim>\<open>print\<close>) is not
  modelled.
\<close>

text \<open>
  Python values that the endpoints return or put into the detail of an
  \<^verbatim>\<open>HTTPException\<close>: strings, dictionaries with string keys, and an
  \<^verbatim>\<open>HTTPException\<close> instance handed back as an ordinary value.
\<close>

datatype pyval =
    Str string
  | Dict "(string \<times> pyval) list"
  | HTTPException_object nat pyval

text \<open>
  Exceptions raised by the libraries, each with the text that \<^verbatim>\<open>str(e)\<close> yields
  (for \<^verbatim>\<open>BuildError\<close> this is also \<^verbatim>\<open>e.msg\<close>). \<open>OtherError\<close> stands for every
  exception class that the source does not test for, such as the engine's API errors.
\<close>

datatype lib_error =
    NotFound string
  | ImageNotFound string
  | BuildError string
  | IOError string
  | OtherError string

fun str_of :: "lib_error \<Rightarrow> string" where
  "str_of (NotFound m) = m"
| "str_of (ImageNotFound m) = m"
| "str_of (BuildError m) = m"
| "str_of (IOError m) = m"
| "str_of (OtherError m) = m"

text \<open>\<^verbatim>\<open>docker.errors.ImageNotFound\<close> is a subclass of \<^verbatim>\<open>docker.errors.NotFound\<close>.\<close>

fun is_NotFound :: "lib_error \<Rightarrow> bool" where
  "is_NotFound (NotFound m) = True"
| "is_NotFound (ImageNotFound m) = True"
| "is_NotFound e = False"

fun is_ImageNotFound :: "lib_error \<Rightarrow> bool" where
  "is_ImageNotFound (ImageNotFound m) = True"
| "is_ImageNotFound e = False"

fun is_BuildError :: "lib_error \<Rightarrow> bool" where
  "is_BuildError (BuildError m) = True"
| "is_BuildError e = False"

fun is_IOError :: "lib_error \<Rightarrow> bool" where
  "is_IOError (IOError m) = True"
| "is_IOError e = False"

text \<open>
  What an endpoint raises: an \<^verbatim>\<open>HTTPException\<close> with status code and detail, or a
  library exception that no handler caught.
\<close>

datatype exn =
    HTTPException nat pyval
  | Uncaught lib_error

text \<open>The container handle of the client library, with the attributes the source reads.\<close>

record container =
  cid :: string
  name :: string
  status :: string

type_synonym chunk = "(string \<times> string) list"

text \<open>The calls the program issues, in the order it issues them.\<close>

datatype event =
    Get string
  | Run string string "string \<times> string \<times> string"
  | Reload string
  | Logs string
  | Stop string
  | Restart string
  | Remove string
  | Build string string
  | Sleep nat
  | Write string string

text \<open>
  The client library as the source uses it. \<open>container_reload\<close> returns the handle
  with its attributes read anew (the source's handle is updated in place);
  \<open>container_logs\<close> is \<^verbatim>\<open>container.logs().decode('utf-8')\<close>; \<open>images_build\<close> yields
  the chunks of the log generator that \<^verbatim>\<open>client.images.build\<close> returns beside the
  image, which the source does not use.
\<close>

record 'r docker =
  containers_get :: "string \<Rightarrow> 'r \<Rightarrow> (lib_error + container) \<times> 'r"
  containers_run :: "string \<Rightarrow> string \<Rightarrow> string \<times> string \<times> string \<Rightarrow> 'r
                       \<Rightarrow> (lib_error + container) \<times> 'r"
  container_reload :: "container \<Rightarrow> 'r \<Rightarrow> (lib_error + container) \<times> 'r"
  container_logs :: "container \<Rightarrow> 'r \<Rightarrow> (lib_error + string) \<times> 'r"
  container_stop :: "container \<Rightarrow> 'r \<Rightarrow> (lib_error + unit) \<times> 'r"
  container_restart :: "container \<Rightarrow> 'r \<Rightarrow> (lib_error + unit) \<times> 'r"
  container_remove :: "container \<Rightarrow> 'r \<Rightarrow> (lib_error + unit) \<times> 'r"
  images_build :: "string \<Rightarrow> string \<Rightarrow> 'r \<Rightarrow> (lib_error + chunk list) \<times> 'r"

text \<open>
  The module-level state of \<^verbatim>\<open>main.py\<close>: \<open>client\<close> is \<open>None\<close> when the
  connection at process start failed. \<open>HOST_DATA_PATH\<close> and \<open>BUILD_CONTEXT_PATH\<close> are
  the results of \<^verbatim>\<open>os.path.abspath\<close> at import time and depend on the working
  directory, so they are parameters. \<open>open_write\<close> is
  \<^verbatim>\<open>with open(path, 'w') as f: f.write(content)\<close>, \<open>time_sleep\<close> is \<^verbatim>\<open>time.sleep\<close>.
\<close>

record 'r env =
  client :: "'r docker option"
  HOST_DATA_PATH :: string
  BUILD_CONTEXT_PATH :: string
  open_write :: "string \<Rightarrow> string \<Rightarrow> 'r \<Rightarrow> (lib_error + unit) \<times> 'r"
  time_sleep :: "nat \<Rightarrow> 'r \<Rightarrow> 'r"

record 'r world =
  rt :: 'r
  trace :: "event list"

definition CONTAINER_NAME :: string where
  "CONTAINER_NAME = ''my-trading-bot-managed''"

definition IMAGE_NAME :: string where
  "IMAGE_NAME = ''trading-bot''"

definition CONTAINER_DATA_PATH :: string where
  "CONTAINER_DATA_PATH = ''/app/data''"

text \<open>A library call: the event is appended to the trace and the runtime moves on.\<close>

definition call ::
  "event \<Rightarrow> ('r \<Rightarrow> (lib_error + 'a) \<times> 'r) \<Rightarrow> 'r world \<Rightarrow> (lib_error + 'a) \<times> 'r world" where
  "call ev f w = (case f (rt w) of (res, r') \<Rightarrow> (res, \<lparr>rt = r', trace = trace w @ [ev]\<rparr>))"

definition sleep :: "'r env \<Rightarrow> nat \<Rightarrow> 'r world \<Rightarrow> 'r world" where
  "sleep E n w = \<lparr>rt = time_sleep E n (rt w), trace = trace w @ [Sleep n]\<rparr>"

definition unavailable :: exn where
  "unavailable = HTTPException 503 (Str ''Docker daemon is not available.'')"

definition quote :: string where
  "quote = [CHR 0x27]"

section \<open>The endpoints\<close>

subsection \<open>\<^verbatim>\<open>get_status\<close>\<close>

definition get_status :: "'r env \<Rightarrow> 'r world \<Rightarrow> (exn + pyval) \<times> 'r world" where
  "get_status E w =
     (case client E of
        None \<Rightarrow> (Inl unavailable, w)
      | Some d \<Rightarrow>
          (case call (Get CONTAINER_NAME) (containers_get d CONTAINER_NAME) w of
             (Inr c, w1) \<Rightarrow>
               (Inr (Dict [(''container_name'', Str (name c)), (''status'', Str (status c))]), w1)
           | (Inl e, w1) \<Rightarrow>
               if is_NotFound e then (Inr (Dict [(''status'', Str ''not_found'')]), w1)
               else (Inl (HTTPException 500 (Str (str_of e))), w1)))"

subsection \<open>\<^verbatim>\<open>start_container\<close>\<close>

text \<open>The loop \<^verbatim>\<open>for _ in range(10)\<close> of lines 58 to 63, with the attempts left.\<close>

fun start_poll ::
  "'r env \<Rightarrow> 'r docker \<Rightarrow> nat \<Rightarrow> container \<Rightarrow> 'r world \<Rightarrow> (exn + pyval) \<times> 'r world" where
  "start_poll E d 0 c w = (Inl (HTTPException 504 (Str ''Container start timed out.'')), w)"
| "start_poll E d (Suc n) c w =
     (case call (Reload (cid c)) (container_reload d c) (sleep E 1 w) of
        (Inl e, w1) \<Rightarrow> (Inl (Uncaught e), w1)
      | (Inr c1, w1) \<Rightarrow>
          if status c1 = ''running'' then
            (Inr (Dict [(''status'', Str ''started_and_running'')]), w1)
          else if status c1 \<in> set [''exited'', ''dead''] then
            (case call (Logs (cid c1)) (container_logs d c1) w1 of
               (Inl e, w2) \<Rightarrow> (Inl (Uncaught e), w2)
             | (Inr logs, w2) \<Rightarrow>
                 (Inl (HTTPException 500
                    (Dict [(''status'', Str ''container_failed_to_start''), (''logs'', Str logs)])),
                  w2))
          else start_poll E d n c1 w1)"

text \<open>The body of the second \<^verbatim>\<open>try\<close> (lines 54 to 63).\<close>

definition start_try :: "'r env \<Rightarrow> 'r docker \<Rightarrow> 'r world \<Rightarrow> (exn + pyval) \<times> 'r world" where
  "start_try E d w =
     (let volumes = (HOST_DATA_PATH E, CONTAINER_DATA_PATH, ''rw'') in
      case call (Run IMAGE_NAME CONTAINER_NAME volumes)
             (containers_run d IMAGE_NAME CONTAINER_NAME volumes) w of
        (Inl e, w1) \<Rightarrow> (Inl (Uncaught e), w1)
      | (Inr c, w1) \<Rightarrow> start_poll E d 10 c w1)"

text \<open>Its handlers (lines 64 to 67).\<close>

fun start_except :: "exn \<Rightarrow> exn" where
  "start_except (HTTPException code detail) = HTTPException code detail"
| "start_except (Uncaught e) =
     (if is_ImageNotFound e then
        HTTPException 404
          (Str (''Image '' @ quote @ IMAGE_NAME @ quote @ '' not found. Please build it first.''))
      else HTTPException 500 (Str (''An unexpected error occurred: '' @ str_of e)))"

definition start_create :: "'r env \<Rightarrow> 'r docker \<Rightarrow> 'r world \<Rightarrow> (exn + pyval) \<times> 'r world" where
  "start_create E d w =
     (case start_try E d w of
        (Inl e, w1) \<Rightarrow> (Inl (start_except e), w1)
      | (Inr v, w1) \<Rightarrow> (Inr v, w1))"

definition start_container :: "'r env \<Rightarrow> 'r world \<Rightarrow> (exn + pyval) \<times> 'r world" where
  "start_container E w =
     (case client E of
        None \<Rightarrow> (Inl unavailable, w)
      | Some d \<Rightarrow>
          (case call (Get CONTAINER_NAME) (containers_get d CONTAINER_NAME) w of
             (Inr c, w1) \<Rightarrow>
               if status c = ''running'' then (Inr (Dict [(''status'', Str ''already_running'')]), w1)
               else start_create E d w1
           | (Inl e, w1) \<Rightarrow>
               if is_NotFound e then start_create E d w1 else (Inl (Uncaught e), w1)))"

subsection \<open>\<^verbatim>\<open>stop_container\<close>\<close>

text \<open>The loop of lines 76 to 79: the state is re-read first, the wait follows.\<close>

fun stop_poll ::
  "'r env \<Rightarrow> 'r docker \<Rightarrow> nat \<Rightarrow> container \<Rightarrow> 'r world \<Rightarrow> (exn + pyval) \<times> 'r world" where
  "stop_poll E d 0 c w = (Inl (HTTPException 504 (Str ''Container stop timed out.'')), w)"
| "stop_poll E d (Suc n) c w =
     (case call (Reload (cid c)) (container_reload d c) w of
        (Inl e, w1) \<Rightarrow> (Inl (Uncaught e), w1)
      | (Inr c1, w1) \<Rightarrow>
          if status c1 = ''exited'' then
            (Inr (Dict [(''status'', Str ''stopped_and_verified'')]), w1)
          else stop_poll E d n c1 (sleep E 1 w1))"

definition stop_try :: "'r env \<Rightarrow> 'r docker \<Rightarrow> 'r world \<Rightarrow> (exn + pyval) \<times> 'r world" where
  "stop_try E d w =
     (case call (Get CONTAINER_NAME) (containers_get d CONTAINER_NAME) w of
        (Inl e, w1) \<Rightarrow> (Inl (Uncaught e), w1)
      | (Inr c, w1) \<Rightarrow>
          if status c = ''exited'' then (Inr (Dict [(''status'', Str ''already_stopped'')]), w1)
          else
            (case call (Stop (cid c)) (container_stop d c) w1 of
               (Inl e, w2) \<Rightarrow> (Inl (Uncaught e), w2)
             | (Inr u, w2) \<Rightarrow> stop_poll E d 10 c w2))"

fun stop_except :: "exn \<Rightarrow> exn + pyval" where
  "stop_except (HTTPException code detail) = Inl (HTTPException code detail)"
| "stop_except (Uncaught e) =
     (if is_NotFound e then Inr (Dict [(''status'', Str ''not_found_or_already_stopped'')])
      else Inl (HTTPException 500 (Str (str_of e))))"

definition stop_container :: "'r env \<Rightarrow> 'r world \<Rightarrow> (exn + pyval) \<times> 'r world" where
  "stop_container E w =
     (case client E of
        None \<Rightarrow> (Inl unavailable, w)
      | Some d \<Rightarrow>
          (case stop_try E d w of
             (Inl e, w1) \<Rightarrow> (stop_except e, w1)
           | (Inr v, w1) \<Rightarrow> (Inr v, w1)))"

subsection \<open>\<^verbatim>\<open>restart_container\<close>\<close>

fun restart_poll ::
  "'r env \<Rightarrow> 'r docker \<Rightarrow> nat \<Rightarrow> container \<Rightarrow> 'r world \<Rightarrow> (exn + pyval) \<times> 'r world" where
  "restart_poll E d 0 c w = (Inl (HTTPException 504 (Str ''Container restart timed out.'')), w)"
| "restart_poll E d (Suc n) c w =
     (case call (Reload (cid c)) (container_reload d c) (sleep E 1 w) of
        (Inl e, w1) \<Rightarrow> (Inl (Uncaught e), w1)
      | (Inr c1, w1) \<Rightarrow>
          if status c1 = ''running'' then
            (Inr (Dict [(''status'', Str ''restarted_and_running'')]), w1)
          else if status c1 \<in> set [''exited'', ''dead''] then
            (case call (Logs (cid c1)) (container_logs d c1) w1 of
               (Inl e, w2) \<Rightarrow> (Inl (Uncaught e), w2)
             | (Inr logs, w2) \<Rightarrow>
                 (Inl (HTTPException 500
                    (Dict [(''status'', Str ''container_failed_on_restart''), (''logs'', Str logs)])),
                  w2))
          else restart_poll E d n c1 w1)"

definition restart_try :: "'r env \<Rightarrow> 'r docker \<Rightarrow> 'r world \<Rightarrow> (exn + pyval) \<times> 'r world" where
  "restart_try E d w =
     (case call (Get CONTAINER_NAME) (containers_get d CONTAINER_NAME) w of
        (Inl e, w1) \<Rightarrow> (Inl (Uncaught e), w1)
      | (Inr c, w1) \<Rightarrow>
          (case call (Restart (cid c)) (container_restart d c) w1 of
             (Inl e, w2) \<Rightarrow> (Inl (Uncaught e), w2)
           | (Inr u, w2) \<Rightarrow> restart_poll E d 10 c w2))"

fun restart_except :: "exn \<Rightarrow> exn" where
  "restart_except (HTTPException code detail) = HTTPException code detail"
| "restart_except (Uncaught e) =
     (if is_NotFound e then HTTPException 404 (Str ''Container not found.'')
      else HTTPException 500 (Str (str_of e)))"

definition restart_container :: "'r env \<Rightarrow> 'r world \<Rightarrow> (exn + pyval) \<times> 'r world" where
  "restart_container E w =
     (case client E of
        None \<Rightarrow> (Inl unavailable, w)
      | Some d \<Rightarrow>
          (case restart_try E d w of
             (Inl e, w1) \<Rightarrow> (Inl (restart_except e), w1)
           | (Inr v, w1) \<Rightarrow> (Inr v, w1)))"

subsection \<open>\<^verbatim>\<open>update_data\<close>\<close>

text \<open>
  \<^verbatim>\<open>os.path.join\<close> on a POSIX host, for two components: a second component that
  starts with a slash replaces the first one.
\<close>

definition os_path_join :: "string \<Rightarrow> string \<Rightarrow> string" where
  "os_path_join a b =
     (if b \<noteq> [] \<and> hd b = CHR ''/'' then b
      else if a = [] \<or> last a = CHR ''/'' then a @ b
      else a @ ''/'' @ b)"

record DataUpdateRequest =
  filename :: string
  content :: string

definition update_data ::
  "'r env \<Rightarrow> DataUpdateRequest \<Rightarrow> 'r world \<Rightarrow> (exn + pyval) \<times> 'r world" where
  "update_data E request w =
     (case stop_container E w of
        (Inl e, w1) \<Rightarrow> (Inl e, w1)
      | (Inr stopped, w1) \<Rightarrow>
          (let file_path = os_path_join (HOST_DATA_PATH E) (filename request) in
           case call (Write file_path (content request))
                  (open_write E file_path (content request)) w1 of
             (Inl e, w2) \<Rightarrow>
               if is_IOError e then
                 (case restart_container E w2 of
                    (Inl e', w3) \<Rightarrow> (Inl e', w3)
                  | (Inr restarted, w3) \<Rightarrow>
                      (Inl (HTTPException 500 (Str (''Failed to write to file: '' @ str_of e))), w3))
               else (Inl (Uncaught e), w2)
           | (Inr u, w2) \<Rightarrow>
               (case restart_container E w2 of
                  (Inl e', w3) \<Rightarrow> (Inl e', w3)
                | (Inr restarted, w3) \<Rightarrow>
                    (Inr (Dict [(''status'', Str ''data_updated_and_restarted''),
                                (''filename'', Str (filename request))]), w3))))"

subsection \<open>\<^verbatim>\<open>rebuild_and_redeploy\<close>\<close>

text \<open>Step 1 (lines 130 to 141): stop and remove the existing container.\<close>

definition remove_old_except :: "lib_error \<Rightarrow> 'r world \<Rightarrow> (exn + unit) \<times> 'r world" where
  "remove_old_except e w =
     (if is_NotFound e then (Inr (), w)
      else (Inl (HTTPException 500 (Str (''Error removing old container: '' @ str_of e))), w))"

definition remove_old :: "'r docker \<Rightarrow> 'r world \<Rightarrow> (exn + unit) \<times> 'r world" where
  "remove_old d w =
     (case call (Get CONTAINER_NAME) (containers_get d CONTAINER_NAME) w of
        (Inl e, w1) \<Rightarrow> remove_old_except e w1
      | (Inr c, w1) \<Rightarrow>
          (case call (Stop (cid c)) (container_stop d c) w1 of
             (Inl e, w2) \<Rightarrow> remove_old_except e w2
           | (Inr u, w2) \<Rightarrow>
               (case call (Remove (cid c)) (container_remove d c) w2 of
                  (Inl e, w3) \<Rightarrow> remove_old_except e w3
                | (Inr u', w3) \<Rightarrow> (Inr (), w3))))"

text \<open>
  \<^verbatim>\<open>str.strip()\<close>: the characters below 256 that Python counts as white space are
  removed at both ends.
\<close>

definition is_space :: "char \<Rightarrow> bool" where
  "is_space ch = ((of_char ch :: nat) \<in> set [9, 10, 11, 12, 13, 28, 29, 30, 31, 32, 133, 160])"

definition strip :: "string \<Rightarrow> string" where
  "strip s = rev (dropWhile is_space (rev (dropWhile is_space s)))"

text \<open>The loop over the build output (lines 155 to 159).\<close>

fun collect_logs :: "chunk list \<Rightarrow> string \<Rightarrow> string" where
  "collect_logs [] build_logs = build_logs"
| "collect_logs (chunk # chunks) build_logs =
     (case map_of chunk ''stream'' of
        None \<Rightarrow> collect_logs chunks build_logs
      | Some s \<Rightarrow> collect_logs chunks (build_logs @ strip s @ [CHR 0x0A]))"

definition rebuild_and_redeploy :: "'r env \<Rightarrow> 'r world \<Rightarrow> (exn + pyval) \<times> 'r world" where
  "rebuild_and_redeploy E w =
     (case client E of
        None \<Rightarrow> (Inl unavailable, w)
      | Some d \<Rightarrow>
          (case remove_old d w of
             (Inl e, w1) \<Rightarrow> (Inl e, w1)
           | (Inr u, w1) \<Rightarrow>
               (case call (Build (BUILD_CONTEXT_PATH E) IMAGE_NAME)
                       (images_build d (BUILD_CONTEXT_PATH E) IMAGE_NAME) w1 of
                  (Inl e, w2) \<Rightarrow>
                    if is_BuildError e then
                      (Inr (HTTPException_object 500
                         (Dict [(''status'', Str ''build_failed''), (''logs'', Str (str_of e))])), w2)
                    else
                      (Inl (HTTPException 500
                         (Str (''An unexpected error occurred during build: '' @ str_of e))), w2)
                | (Inr chunks, w2) \<Rightarrow>
                    (let build_logs = collect_logs chunks [] in
                     case start_container E w2 of
                       (Inl e, w3) \<Rightarrow> (Inl e, w3)
                     | (Inr start_response, w3) \<Rightarrow>
                         (Inr (Dict [(''status'', Str ''rebuild_and_restart_successful''),
                                     (''final_container_status'', start_response),
                                     (''build_logs'', Str build_logs)]), w3)))))"

section \<open>A scripted runtime\<close>

text \<open>
  A small container engine used to run the endpoints on concrete inputs. The
  container is absent or has a status; \<open>fk_script\<close> lists the statuses that the next
  re-reads will observe, one per re-read, after which the status stays as it is.
  Creation is refused while a container of that name exists, and the image may be
  missing. Stop and restart are accepted at once; what they lead to is in the script.
\<close>

record fake =
  fk_status :: "string option"
  fk_script :: "string list"
  fk_image :: bool
  fk_logs :: string
  fk_build :: "lib_error + chunk list"
  fk_write_error :: "lib_error option"
  fk_files :: "(string \<times> string) list"

definition fake_get :: "string \<Rightarrow> fake \<Rightarrow> (lib_error + container) \<times> fake" where
  "fake_get n s =
     (case fk_status s of
        None \<Rightarrow> (Inl (NotFound ''404 Client Error: No such container''), s)
      | Some st \<Rightarrow> (Inr \<lparr>cid = ''c1'', name = n, status = st\<rparr>, s))"

definition fake_run ::
  "string \<Rightarrow> string \<Rightarrow> string \<times> string \<times> string \<Rightarrow> fake \<Rightarrow> (lib_error + container) \<times> fake" where
  "fake_run img n volumes s =
     (if \<not> fk_image s then (Inl (ImageNotFound ''404 Client Error: No such image''), s)
      else if fk_status s \<noteq> None then
        (Inl (OtherError ''409 Client Error: Conflict. The container name is already in use''), s)
      else (Inr \<lparr>cid = ''c1'', name = n, status = ''created''\<rparr>, s\<lparr>fk_status := Some ''created''\<rparr>))"

definition fake_reload :: "container \<Rightarrow> fake \<Rightarrow> (lib_error + container) \<times> fake" where
  "fake_reload c s =
     (case fk_status s of
        None \<Rightarrow> (Inl (NotFound ''404 Client Error: No such container''), s)
      | Some st \<Rightarrow>
          (case fk_script s of
             [] \<Rightarrow> (Inr (c\<lparr>status := st\<rparr>), s)
           | x # xs \<Rightarrow> (Inr (c\<lparr>status := x\<rparr>), s\<lparr>fk_status := Some x, fk_script := xs\<rparr>)))"

definition fake_logs :: "container \<Rightarrow> fake \<Rightarrow> (lib_error + string) \<times> fake" where
  "fake_logs c s = (Inr (fk_logs s), s)"

definition fake_accept :: "container \<Rightarrow> fake \<Rightarrow> (lib_error + unit) \<times> fake" where
  "fake_accept c s =
     (case fk_status s of
        None \<Rightarrow> (Inl (NotFound ''404 Client Error: No such container''), s)
      | Some st \<Rightarrow> (Inr (), s))"

definition fake_remove :: "container \<Rightarrow> fake \<Rightarrow> (lib_error + unit) \<times> fake" where
  "fake_remove c s =
     (case fk_status s of
        None \<Rightarrow> (Inl (NotFound ''404 Client Error: No such container''), s)
      | Some st \<Rightarrow> (Inr (), s\<lparr>fk_status := None, fk_script := []\<rparr>))"

definition fake_build :: "string \<Rightarrow> string \<Rightarrow> fake \<Rightarrow> (lib_error + chunk list) \<times> fake" where
  "fake_build path tag s =
     (case fk_build s of
        Inl e \<Rightarrow> (Inl e, s)
      | Inr chunks \<Rightarrow> (Inr chunks, s\<lparr>fk_image := True\<rparr>))"

definition fake_write :: "string \<Rightarrow> string \<Rightarrow> fake \<Rightarrow> (lib_error + unit) \<times> fake" where
  "fake_write path body s =
     (case fk_write_error s of
        Some e \<Rightarrow> (Inl e, s)
      | None \<Rightarrow> (Inr (), s\<lparr>fk_files := (path, body) # fk_files s\<rparr>))"

definition fake_docker :: "fake docker" where
  "fake_docker =
     \<lparr>containers_get = fake_get, containers_run = fake_run, container_reload = fake_reload,
      container_logs = fake_logs, container_stop = fake_accept, container_restart = fake_accept,
      container_remove = fake_remove, images_build = fake_build\<rparr>"

definition fake_env :: "fake env" where
  "fake_env =
     \<lparr>client = Some fake_docker, HOST_DATA_PATH = ''/srv/app/trading_data'',
      BUILD_CONTEXT_PATH = ''/srv'', open_write = fake_write, time_sleep = (\<lambda>n s. s)\<rparr>"

definition degraded_env :: "fake env" where
  "degraded_env = fake_env\<lparr>client := None\<rparr>"

definition fake0 :: fake where
  "fake0 =
     \<lparr>fk_status = None, fk_script = [], fk_image = True, fk_logs = ''boot log'',
      fk_build = Inr [[(''stream'', ''Step 1/1 : FROM scratch'' @ [CHR 0x0A])]],
      fk_write_error = None, fk_files = []\<rparr>"

definition start_world :: "fake \<Rightarrow> fake world" where
  "start_world s = \<lparr>rt = s, trace = []\<rparr>"

text \<open>
  The same engine, except that it refuses to hand out the logs, as the engine does for
  a container that is dead or marked for removal.
\<close>

definition no_logs :: "container \<Rightarrow> fake \<Rightarrow> (lib_error + string) \<times> fake" where
  "no_logs c s =
     (Inl (OtherError
        ''409 Client Error: Conflict (can not get logs from container which is dead or marked for removal)''),
      s)"

definition fake_env_no_logs :: "fake env" where
  "fake_env_no_logs = fake_env\<lparr>client := Some (fake_docker\<lparr>container_logs := no_logs\<rparr>)\<rparr>"

section \<open>Observations on traces and on the polling loops\<close>

text \<open>The number of create-and-run commands in a trace.\<close>

fun is_Run :: "event \<Rightarrow> bool" where
  "is_Run (Run img n volumes) = True"
| "is_Run ev = False"

definition creations :: "event list \<Rightarrow> nat" where
  "creations tr = length (filter is_Run tr)"

fun is_Stop :: "event \<Rightarrow> bool" where
  "is_Stop (Stop i) = True"
| "is_Stop ev = False"

definition stop_commands :: "event list \<Rightarrow> nat" where
  "stop_commands tr = length (filter is_Stop tr)"

text \<open>
  \<open>start_pending E d k c w\<close> follows the first \<open>k\<close> attempts of the loop of
  \<^verbatim>\<open>start_container\<close> as long as each of them observes a state that is neither
  \<^verbatim>\<open>running\<close> nor \<^verbatim>\<open>exited\<close> nor \<^verbatim>\<open>dead\<close>, and yields the handle and the world after
  them; it is \<open>None\<close> when one of these attempts resolves or raises.
\<close>

fun start_pending ::
  "'r env \<Rightarrow> 'r docker \<Rightarrow> nat \<Rightarrow> container \<Rightarrow> 'r world \<Rightarrow> (container \<times> 'r world) option" where
  "start_pending E d 0 c w = Some (c, w)"
| "start_pending E d (Suc k) c w =
     (case call (Reload (cid c)) (container_reload d c) (sleep E 1 w) of
        (Inl e, w1) \<Rightarrow> None
      | (Inr c1, w1) \<Rightarrow>
          if status c1 \<in> set [''running'', ''exited'', ''dead''] then None
          else start_pending E d k c1 w1)"

subsection \<open>The convergence poller of the specification\<close>





text \<open>A path lies under a directory when it continues the directory's path after a slash.\<close>

definition lies_under :: "string \<Rightarrow> string \<Rightarrow> bool" where
  "lies_under dir path = (take (length dir + 1) path = dir @ ''/'')"

section \<open>Degraded mode\<close>

text \<open>
  Claim C8. When the connection to the container engine failed at process start
  (\<open>client\<close> is \<open>None\<close>), each of status, start, stop, restart, update-data and
  rebuild fails with the runtime-unavailable error (HTTP 503) and leaves the world as
  it was: no runtime call is issued and no file is written. \<^verbatim>\<open>update_data\<close> has no
  check of its own; it fails in its first step, the call of \<^verbatim>\<open>stop_container\<close>.
\<close>

theorem degraded_mode_short_circuits:
  "get_status (E\<lparr>client := None\<rparr>) w =
     (Inl (HTTPException 503 (Str ''Docker daemon is not available.'')), w)
   \<and> start_container (E\<lparr>client := None\<rparr>) w =
     (Inl (HTTPException 503 (Str ''Docker daemon is not available.'')), w)
   \<and> stop_container (E\<lparr>client := None\<rparr>) w =
     (Inl (HTTPException 503 (Str ''Docker daemon is not available.'')), w)
   \<and> restart_container (E\<lparr>client := None\<rparr>) w =
     (Inl (HTTPException 503 (Str ''Docker daemon is not available.'')), w)
   \<and> update_data (E\<lparr>client := None\<rparr>) request w =
     (Inl (HTTPException 503 (Str ''Docker daemon is not available.'')), w)
   \<and> rebuild_and_redeploy (E\<lparr>client := None\<rparr>) w =
     (Inl (HTTPException 503 (Str ''Docker daemon is not available.'')), w)"
  by (simp add: get_status_def start_container_def stop_container_def restart_container_def
      update_data_def rebuild_and_redeploy_def unavailable_def)

theorem degraded_mode_short_circuits_witness:
  "update_data degraded_env \<lparr>filename = ''dsl.txt'', content = ''{}''\<rparr> (start_world fake0) =
     (Inl (HTTPException 503 (Str ''Docker daemon is not available.'')), start_world fake0)
   \<and> rebuild_and_redeploy degraded_env (start_world fake0) =
     (Inl (HTTPException 503 (Str ''Docker daemon is not available.'')), start_world fake0)"
  using degraded_mode_short_circuits
          [of fake_env "start_world fake0" "\<lparr>filename = ''dsl.txt'', content = ''{}''\<rparr>"]
  by (simp add: degraded_env_def)

section \<open>The polling loops\<close>








section \<open>Start\<close>

text \<open>
  Claim C2. When the lookup finds the container in state \<^verbatim>\<open>running\<close>, start returns
  \<^verbatim>\<open>already_running\<close> and issues nothing but the lookup; when the next lookup finds it
  running again, a second start does the same, and the number of create-and-run
  commands issued is what it was before the two calls.
\<close>

theorem start_is_idempotent_when_running:
  assumes "client E = Some d"
    and "containers_get d CONTAINER_NAME (rt w) = (Inr c, r1)" and "status c = ''running''"
    and "containers_get d CONTAINER_NAME r1 = (Inr c', r2)" and "status c' = ''running''"
  shows "start_container E w =
           (Inr (Dict [(''status'', Str ''already_running'')]),
            \<lparr>rt = r1, trace = trace w @ [Get CONTAINER_NAME]\<rparr>)
       \<and> start_container E (snd (start_container E w)) =
           (Inr (Dict [(''status'', Str ''already_running'')]),
            \<lparr>rt = r2, trace = trace w @ [Get CONTAINER_NAME, Get CONTAINER_NAME]\<rparr>)
       \<and> creations (trace (snd (start_container E (snd (start_container E w)))))
           = creations (trace w)"
  using assms by (simp add: start_container_def call_def creations_def)

theorem start_is_idempotent_when_running_witness:
  "(start_container fake_env
      (snd (start_container fake_env (start_world (fake0\<lparr>fk_script := [''running'']\<rparr>)))) =
      (Inr (Dict [(''status'', Str ''already_running'')]),
       \<lparr>rt = fake0\<lparr>fk_status := Some ''running''\<rparr>,
        trace = trace (snd (start_container fake_env
                  (start_world (fake0\<lparr>fk_script := [''running'']\<rparr>)))) @ [Get CONTAINER_NAME]\<rparr>)
    \<and> start_container fake_env (snd (start_container fake_env
        (snd (start_container fake_env (start_world (fake0\<lparr>fk_script := [''running'']\<rparr>)))))) =
      (Inr (Dict [(''status'', Str ''already_running'')]),
       \<lparr>rt = fake0\<lparr>fk_status := Some ''running''\<rparr>,
        trace = trace (snd (start_container fake_env
                  (start_world (fake0\<lparr>fk_script := [''running'']\<rparr>))))
                @ [Get CONTAINER_NAME, Get CONTAINER_NAME]\<rparr>)
    \<and> creations (trace (snd (start_container fake_env (snd (start_container fake_env
        (snd (start_container fake_env (start_world (fake0\<lparr>fk_script := [''running'']\<rparr>))))))))) =
      creations (trace (snd (start_container fake_env
        (start_world (fake0\<lparr>fk_script := [''running'']\<rparr>))))))
   \<and> creations (trace (snd (start_container fake_env
        (start_world (fake0\<lparr>fk_script := [''running'']\<rparr>))))) = 1"
proof -
  let ?w = "snd (start_container fake_env (start_world (fake0\<lparr>fk_script := [''running'']\<rparr>)))"
  let ?c = "\<lparr>cid = ''c1'', name = CONTAINER_NAME, status = ''running''\<rparr>"
  let ?r = "fake0\<lparr>fk_status := Some ''running''\<rparr>"
  have a: "client fake_env = Some fake_docker" by (simp add: fake_env_def)
  have b: "containers_get fake_docker CONTAINER_NAME (rt ?w) = (Inr ?c, ?r)" by code_simp
  have c: "status ?c = ''running''" by simp
  have d: "containers_get fake_docker CONTAINER_NAME ?r = (Inr ?c, ?r)" by code_simp
  have e: "creations (trace ?w) = 1" by code_simp
  show ?thesis
    by (rule conjI [OF start_is_idempotent_when_running [OF a b c d c] e])
qed

lemma start_pending_poll:
  "start_pending E d k c w = Some (c', w') \<Longrightarrow>
     start_poll E d (k + n) c w = start_poll E d n c' w'"
  by (induction k arbitrary: c w) (auto split: prod.splits sum.splits if_splits)

text \<open>
  Claim C3, as stated, fails when the fetch of the logs raises: the second attempt
  observes \<^verbatim>\<open>dead\<close>, the engine refuses the logs, and start raises the generic HTTP 500
  error in place of \<^verbatim>\<open>container_failed_to_start\<close>.
\<close>

theorem failed_log_fetch_gives_generic_error:
  "start_container fake_env_no_logs
     (start_world (fake0\<lparr>fk_script := [''created'', ''dead'']\<rparr>)) =
     (Inl (HTTPException 500 (Str
        ''An unexpected error occurred: 409 Client Error: Conflict (can not get logs from container which is dead or marked for removal)'')),
      \<lparr>rt = fake0\<lparr>fk_status := Some ''dead''\<rparr>,
       trace = [Get CONTAINER_NAME,
                Run IMAGE_NAME CONTAINER_NAME
                  (HOST_DATA_PATH fake_env, CONTAINER_DATA_PATH, ''rw''),
                Sleep 1, Reload ''c1'', Sleep 1, Reload ''c1'', Logs ''c1'']\<rparr>)"
  by code_simp

text \<open>
  Claim C3, amended. Start has found no running container and has created one. If the
  first \<open>k\<close> attempts of its poll, \<open>k < 10\<close>, observe neither \<^verbatim>\<open>running\<close> nor a failure
  state, the next attempt observes \<^verbatim>\<open>exited\<close> or \<^verbatim>\<open>dead\<close>, and the fetch of the logs
  returns, then start raises the HTTP 500 error \<^verbatim>\<open>container_failed_to_start\<close> with
  these logs, and not the timeout.
\<close>

theorem start_reports_failure_state:
  assumes "client E = Some d"
    and "call (Get CONTAINER_NAME) (containers_get d CONTAINER_NAME) w = (found, w0)"
    and "case found of Inr c0 \<Rightarrow> status c0 \<noteq> ''running'' | Inl e \<Rightarrow> is_NotFound e"
    and "call (Run IMAGE_NAME CONTAINER_NAME (HOST_DATA_PATH E, CONTAINER_DATA_PATH, ''rw''))
           (containers_run d IMAGE_NAME CONTAINER_NAME
              (HOST_DATA_PATH E, CONTAINER_DATA_PATH, ''rw''))
           w0 = (Inr c, w1)"
    and "start_pending E d k c w1 = Some (c2, w2)" and "k < 10"
    and "call (Reload (cid c2)) (container_reload d c2) (sleep E 1 w2) = (Inr c3, w3)"
    and "status c3 = ''exited'' \<or> status c3 = ''dead''"
    and "call (Logs (cid c3)) (container_logs d c3) w3 = (Inr logs, w4)"
  shows "start_container E w =
           (Inl (HTTPException 500
              (Dict [(''status'', Str ''container_failed_to_start''), (''logs'', Str logs)])), w4)"
proof -
  let ?failure = "(Inl (HTTPException 500
      (Dict [(''status'', Str ''container_failed_to_start''), (''logs'', Str logs)])), w4)"
  obtain m where m: "10 = k + Suc m"
    using \<open>k < 10\<close> by (metis less_imp_Suc_add add_Suc_right)
  have "start_poll E d 10 c w1 = start_poll E d (Suc m) c2 w2"
    unfolding m using assms(5) by (rule start_pending_poll)
  also have "\<dots> = ?failure"
    using assms(7,8,9) by auto
  finally have poll: "start_poll E d 10 c w1 = ?failure" .
  have "start_create E d w0 = ?failure"
    using assms(4) poll by (simp add: start_create_def start_try_def)
  then show ?thesis
    using assms(1,2,3) by (auto simp: start_container_def split: sum.splits)
qed

theorem start_reports_failure_state_witness:
  "start_container fake_env (start_world (fake0\<lparr>fk_script := [''created'', ''dead'']\<rparr>)) =
     (Inl (HTTPException 500
        (Dict [(''status'', Str ''container_failed_to_start''), (''logs'', Str ''boot log'')])),
      \<lparr>rt = fake0\<lparr>fk_status := Some ''dead''\<rparr>,
       trace = [Get CONTAINER_NAME,
                Run IMAGE_NAME CONTAINER_NAME
                  (HOST_DATA_PATH fake_env, CONTAINER_DATA_PATH, ''rw''),
                Sleep 1, Reload ''c1'', Sleep 1, Reload ''c1'', Logs ''c1'']\<rparr>)"
proof -
  let ?F = "fake0\<lparr>fk_script := [''created'', ''dead'']\<rparr>"
  let ?vol = "(HOST_DATA_PATH fake_env, CONTAINER_DATA_PATH, ''rw'')"
  let ?run = "Run IMAGE_NAME CONTAINER_NAME ?vol"
  let ?created = "\<lparr>cid = ''c1'', name = CONTAINER_NAME, status = ''created''\<rparr>"
  let ?dead = "\<lparr>cid = ''c1'', name = CONTAINER_NAME, status = ''dead''\<rparr>"
  let ?w0 = "\<lparr>rt = ?F, trace = [Get CONTAINER_NAME]\<rparr>"
  let ?w1 = "\<lparr>rt = ?F\<lparr>fk_status := Some ''created''\<rparr>, trace = [Get CONTAINER_NAME, ?run]\<rparr>"
  let ?w2 = "\<lparr>rt = fake0\<lparr>fk_status := Some ''created'', fk_script := [''dead'']\<rparr>,
              trace = [Get CONTAINER_NAME, ?run, Sleep 1, Reload ''c1'']\<rparr>"
  let ?w3 = "\<lparr>rt = fake0\<lparr>fk_status := Some ''dead''\<rparr>,
              trace = [Get CONTAINER_NAME, ?run, Sleep 1, Reload ''c1'', Sleep 1, Reload ''c1'']\<rparr>"
  let ?w4 = "\<lparr>rt = fake0\<lparr>fk_status := Some ''dead''\<rparr>,
              trace = [Get CONTAINER_NAME, ?run, Sleep 1, Reload ''c1'', Sleep 1, Reload ''c1'',
                       Logs ''c1'']\<rparr>"
  let ?found = "Inl (NotFound ''404 Client Error: No such container'') :: lib_error + container"
  have a: "client fake_env = Some fake_docker" by (simp add: fake_env_def)
  have b: "call (Get CONTAINER_NAME) (containers_get fake_docker CONTAINER_NAME) (start_world ?F)
             = (?found, ?w0)" by code_simp
  have c: "case ?found of Inr c0 \<Rightarrow> status c0 \<noteq> ''running'' | Inl e \<Rightarrow> is_NotFound e" by simp
  have d: "call ?run (containers_run fake_docker IMAGE_NAME CONTAINER_NAME ?vol) ?w0
             = (Inr ?created, ?w1)" by code_simp
  have e: "start_pending fake_env fake_docker 1 ?created ?w1 = Some (?created, ?w2)" by code_simp
  have f: "(1::nat) < 10" by simp
  have g: "call (Reload (cid ?created)) (container_reload fake_docker ?created)
             (sleep fake_env 1 ?w2) = (Inr ?dead, ?w3)" by code_simp
  have h: "status ?dead = ''exited'' \<or> status ?dead = ''dead''" by simp
  have i: "call (Logs (cid ?dead)) (container_logs fake_docker ?dead) ?w3
             = (Inr ''boot log'', ?w4)" by code_simp
  show ?thesis
    by (rule start_reports_failure_state [OF a b c d e f g h i])
qed

text \<open>
  Claim C10. When the lookup finds the container in a state other than \<^verbatim>\<open>running\<close>,
  start neither removes nor restarts it: the next call it issues is the create-and-run
  command with the same fixed name. When the runtime rejects this command with an
  error that is not \<^verbatim>\<open>ImageNotFound\<close>, start raises the generic HTTP 500 error and
  issues nothing else.
\<close>

theorem start_on_existing_stopped_container:
  assumes "client E = Some d"
    and "call (Get CONTAINER_NAME) (containers_get d CONTAINER_NAME) w = (Inr c0, w0)"
    and "status c0 \<noteq> ''running''"
    and "call (Run IMAGE_NAME CONTAINER_NAME (HOST_DATA_PATH E, CONTAINER_DATA_PATH, ''rw''))
           (containers_run d IMAGE_NAME CONTAINER_NAME
              (HOST_DATA_PATH E, CONTAINER_DATA_PATH, ''rw''))
           w0 = (Inl e, w1)"
    and "\<not> is_ImageNotFound e"
  shows "start_container E w =
           (Inl (HTTPException 500 (Str (''An unexpected error occurred: '' @ str_of e))), w1)
       \<and> trace w1 = trace w @ [Get CONTAINER_NAME,
            Run IMAGE_NAME CONTAINER_NAME (HOST_DATA_PATH E, CONTAINER_DATA_PATH, ''rw'')]"
proof -
  have "start_create E d w0 =
          (Inl (HTTPException 500 (Str (''An unexpected error occurred: '' @ str_of e))), w1)"
    using assms(4,5) by (simp add: start_create_def start_try_def)
  then have res: "start_container E w =
          (Inl (HTTPException 500 (Str (''An unexpected error occurred: '' @ str_of e))), w1)"
    using assms(1,2,3) by (simp add: start_container_def)
  have "trace w0 = trace w @ [Get CONTAINER_NAME]"
    using assms(2) by (auto simp: call_def split: prod.splits)
  moreover have "trace w1 = trace w0 @
      [Run IMAGE_NAME CONTAINER_NAME (HOST_DATA_PATH E, CONTAINER_DATA_PATH, ''rw'')]"
    using assms(4) by (auto simp: call_def split: prod.splits)
  ultimately show ?thesis using res by simp
qed

theorem start_on_existing_stopped_container_witness:
  "start_container fake_env (start_world (fake0\<lparr>fk_status := Some ''exited''\<rparr>)) =
     (Inl (HTTPException 500 (Str (''An unexpected error occurred: '' @
        str_of (OtherError ''409 Client Error: Conflict. The container name is already in use'')))),
      \<lparr>rt = fake0\<lparr>fk_status := Some ''exited''\<rparr>,
       trace = [Get CONTAINER_NAME,
                Run IMAGE_NAME CONTAINER_NAME
                  (HOST_DATA_PATH fake_env, CONTAINER_DATA_PATH, ''rw'')]\<rparr>)
   \<and> trace \<lparr>rt = fake0\<lparr>fk_status := Some ''exited''\<rparr>,
       trace = [Get CONTAINER_NAME,
                Run IMAGE_NAME CONTAINER_NAME
                  (HOST_DATA_PATH fake_env, CONTAINER_DATA_PATH, ''rw'')]\<rparr>
     = trace (start_world (fake0\<lparr>fk_status := Some ''exited''\<rparr>)) @ [Get CONTAINER_NAME,
          Run IMAGE_NAME CONTAINER_NAME (HOST_DATA_PATH fake_env, CONTAINER_DATA_PATH, ''rw'')]"
proof -
  let ?F = "fake0\<lparr>fk_status := Some ''exited''\<rparr>"
  let ?vol = "(HOST_DATA_PATH fake_env, CONTAINER_DATA_PATH, ''rw'')"
  let ?run = "Run IMAGE_NAME CONTAINER_NAME ?vol"
  let ?exited = "\<lparr>cid = ''c1'', name = CONTAINER_NAME, status = ''exited''\<rparr>"
  let ?w0 = "\<lparr>rt = ?F, trace = [Get CONTAINER_NAME]\<rparr>"
  let ?w1 = "\<lparr>rt = ?F, trace = [Get CONTAINER_NAME, ?run]\<rparr>"
  let ?e = "OtherError ''409 Client Error: Conflict. The container name is already in use''"
  have a: "client fake_env = Some fake_docker" by (simp add: fake_env_def)
  have b: "call (Get CONTAINER_NAME) (containers_get fake_docker CONTAINER_NAME) (start_world ?F)
             = (Inr ?exited, ?w0)" by code_simp
  have c: "status ?exited \<noteq> ''running''" by simp
  have d: "call ?run (containers_run fake_docker IMAGE_NAME CONTAINER_NAME ?vol) ?w0
             = (Inl ?e, ?w1)" by code_simp
  have e: "\<not> is_ImageNotFound ?e" by simp
  show ?thesis
    by (rule start_on_existing_stopped_container [OF a b c d e])
qed

section \<open>Rebuild and redeploy\<close>

lemma remove_old_creations:
  "remove_old d w = (res, w1) \<Longrightarrow> creations (trace w1) = creations (trace w)"
  by (auto simp: remove_old_def remove_old_except_def call_def creations_def
           split: prod.splits sum.splits if_splits)

text \<open>
  Claim C4. When step (a) of rebuild-and-redeploy has completed and the image build
  raises, the operation ends in the world that the build call left: the last call
  issued is the build, start is not invoked, and no create-and-run command has been
  issued, so a container that step (a) removed stays absent.
\<close>

theorem build_failure_skips_start:
  assumes "client E = Some d"
    and "remove_old d w = (Inr (), w1)"
    and "call (Build (BUILD_CONTEXT_PATH E) IMAGE_NAME)
           (images_build d (BUILD_CONTEXT_PATH E) IMAGE_NAME) w1 = (Inl e, w2)"
  shows "snd (rebuild_and_redeploy E w) = w2
       \<and> trace w2 = trace w1 @ [Build (BUILD_CONTEXT_PATH E) IMAGE_NAME]
       \<and> creations (trace w2) = creations (trace w)"
proof -
  have "snd (rebuild_and_redeploy E w) = w2"
    using assms by (simp add: rebuild_and_redeploy_def)
  moreover have t: "trace w2 = trace w1 @ [Build (BUILD_CONTEXT_PATH E) IMAGE_NAME]"
    using assms(3) by (auto simp: call_def split: prod.splits)
  moreover have "creations (trace w2) = creations (trace w)"
    using remove_old_creations [OF assms(2)] t by (simp add: creations_def)
  ultimately show ?thesis by simp
qed

theorem build_failure_skips_start_witness:
  "(snd (rebuild_and_redeploy fake_env
      (start_world (fake0\<lparr>fk_status := Some ''running'',
         fk_build := Inl (BuildError ''The command returned a non-zero code: 1'')\<rparr>)))
      = \<lparr>rt = fake0\<lparr>fk_status := None,
                fk_build := Inl (BuildError ''The command returned a non-zero code: 1'')\<rparr>,
         trace = [Get CONTAINER_NAME, Stop ''c1'', Remove ''c1'',
                  Build (BUILD_CONTEXT_PATH fake_env) IMAGE_NAME]\<rparr>
    \<and> trace \<lparr>rt = fake0\<lparr>fk_status := None,
                fk_build := Inl (BuildError ''The command returned a non-zero code: 1'')\<rparr>,
         trace = [Get CONTAINER_NAME, Stop ''c1'', Remove ''c1'',
                  Build (BUILD_CONTEXT_PATH fake_env) IMAGE_NAME]\<rparr>
      = trace \<lparr>rt = fake0\<lparr>fk_status := None,
                fk_build := Inl (BuildError ''The command returned a non-zero code: 1'')\<rparr>,
         trace = [Get CONTAINER_NAME, Stop ''c1'', Remove ''c1'']\<rparr>
        @ [Build (BUILD_CONTEXT_PATH fake_env) IMAGE_NAME]
    \<and> creations (trace \<lparr>rt = fake0\<lparr>fk_status := None,
                fk_build := Inl (BuildError ''The command returned a non-zero code: 1'')\<rparr>,
         trace = [Get CONTAINER_NAME, Stop ''c1'', Remove ''c1'',
                  Build (BUILD_CONTEXT_PATH fake_env) IMAGE_NAME]\<rparr>)
      = creations (trace (start_world (fake0\<lparr>fk_status := Some ''running'',
         fk_build := Inl (BuildError ''The command returned a non-zero code: 1'')\<rparr>))))
   \<and> creations (trace (start_world (fake0\<lparr>fk_status := Some ''running'',
         fk_build := Inl (BuildError ''The command returned a non-zero code: 1'')\<rparr>))) = 0"
proof -
  let ?err = "BuildError ''The command returned a non-zero code: 1''"
  let ?F = "fake0\<lparr>fk_status := Some ''running'', fk_build := Inl ?err\<rparr>"
  let ?G = "fake0\<lparr>fk_status := None, fk_build := Inl ?err\<rparr>"
  let ?w1 = "\<lparr>rt = ?G, trace = [Get CONTAINER_NAME, Stop ''c1'', Remove ''c1'']\<rparr>"
  let ?w2 = "\<lparr>rt = ?G, trace = [Get CONTAINER_NAME, Stop ''c1'', Remove ''c1'',
                                 Build (BUILD_CONTEXT_PATH fake_env) IMAGE_NAME]\<rparr>"
  have a: "client fake_env = Some fake_docker" by (simp add: fake_env_def)
  have b: "remove_old fake_docker (start_world ?F) = (Inr (), ?w1)" by code_simp
  have c: "call (Build (BUILD_CONTEXT_PATH fake_env) IMAGE_NAME)
             (images_build fake_docker (BUILD_CONTEXT_PATH fake_env) IMAGE_NAME) ?w1
             = (Inl ?err, ?w2)" by code_simp
  have d: "creations (trace (start_world ?F)) = 0" by code_simp
  show ?thesis
    by (rule conjI [OF build_failure_skips_start [OF a b c] d])
qed

text \<open>
  Claim C7. A build that fails with \<^verbatim>\<open>BuildError\<close> does not make the operation raise:
  line 164 hands the \<^verbatim>\<open>HTTPException\<close> back with \<^verbatim>\<open>return\<close>, so the operation ends
  normally and its result is the exception object with status 500, the marker
  \<^verbatim>\<open>build_failed\<close> and the message of the build error. A build that fails with another
  error raises HTTP 500, as every other failure path of the file does.
\<close>

theorem build_error_is_returned_not_raised:
  "fst (rebuild_and_redeploy fake_env
      (start_world (fake0\<lparr>fk_status := Some ''running'',
         fk_build := Inl (BuildError ''The command returned a non-zero code: 1'')\<rparr>)))
     = Inr (HTTPException_object 500
         (Dict [(''status'', Str ''build_failed''),
                (''logs'', Str ''The command returned a non-zero code: 1'')]))
   \<and> fst (rebuild_and_redeploy fake_env
      (start_world (fake0\<lparr>fk_status := Some ''running'',
         fk_build := Inl (OtherError ''Error while fetching server API version'')\<rparr>)))
     = Inl (HTTPException 500 (Str
         ''An unexpected error occurred during build: Error while fetching server API version''))"
  by code_simp

section \<open>Stop\<close>

text \<open>
  Claim C6, as stated, fails when the first stop does not bring the container to
  \<^verbatim>\<open>exited\<close>. A container that was created and never started stays in state
  \<^verbatim>\<open>created\<close> when it is stopped: the first stop times out after one stop command, and
  the second stop issues a second stop command and times out as well.
\<close>

theorem second_stop_after_timeout_stops_again:
  "fst (stop_container fake_env (snd (stop_container fake_env
          (start_world (fake0\<lparr>fk_status := Some ''created''\<rparr>)))))
     = Inl (HTTPException 504 (Str ''Container stop timed out.''))
   \<and> stop_commands (trace (snd (stop_container fake_env
          (start_world (fake0\<lparr>fk_status := Some ''created''\<rparr>))))) = 1
   \<and> stop_commands (trace (snd (stop_container fake_env (snd (stop_container fake_env
          (start_world (fake0\<lparr>fk_status := Some ''created''\<rparr>))))))) = 2"
  by code_simp

text \<open>
  Claim C6, amended. Of two consecutive stop operations, the second one returns
  \<^verbatim>\<open>already_stopped\<close> when its lookup finds the container in state \<^verbatim>\<open>exited\<close>, and
  \<^verbatim>\<open>not_found_or_already_stopped\<close> when its lookup finds no container; in both cases
  the lookup is the only call it issues, so it issues no stop command.
\<close>

theorem second_stop_short_circuits:
  assumes "client E = Some d"
    and "call (Get CONTAINER_NAME) (containers_get d CONTAINER_NAME) (snd (stop_container E w))
           = (found, w2)"
    and "case found of Inr c \<Rightarrow> status c = ''exited'' | Inl e \<Rightarrow> is_NotFound e"
  shows "stop_container E (snd (stop_container E w)) =
           (Inr (Dict [(''status'', Str (case found of Inr c \<Rightarrow> ''already_stopped''
                                          | Inl e \<Rightarrow> ''not_found_or_already_stopped''))]), w2)
       \<and> trace w2 = trace (snd (stop_container E w)) @ [Get CONTAINER_NAME]
       \<and> stop_commands (trace w2) = stop_commands (trace (snd (stop_container E w)))"
proof -
  have t: "trace w2 = trace (snd (stop_container E w)) @ [Get CONTAINER_NAME]"
    using assms(2) by (auto simp: call_def split: prod.splits)
  have "stop_container E (snd (stop_container E w)) =
           (Inr (Dict [(''status'', Str (case found of Inr c \<Rightarrow> ''already_stopped''
                                          | Inl e \<Rightarrow> ''not_found_or_already_stopped''))]), w2)"
    using assms by (cases found) (simp_all add: stop_container_def stop_try_def)
  with t show ?thesis by (simp add: stop_commands_def)
qed

theorem second_stop_short_circuits_witness:
  "stop_container fake_env (snd (stop_container fake_env
      (start_world (fake0\<lparr>fk_status := Some ''running'', fk_script := [''exited'']\<rparr>))))
     = (Inr (Dict [(''status'', Str ''already_stopped'')]),
        \<lparr>rt = fake0\<lparr>fk_status := Some ''exited''\<rparr>,
         trace = [Get CONTAINER_NAME, Stop ''c1'', Reload ''c1'', Get CONTAINER_NAME]\<rparr>)
   \<and> fst (stop_container fake_env
        (start_world (fake0\<lparr>fk_status := Some ''running'', fk_script := [''exited'']\<rparr>)))
     = Inr (Dict [(''status'', Str ''stopped_and_verified'')])"
proof -
  let ?w = "start_world (fake0\<lparr>fk_status := Some ''running'', fk_script := [''exited'']\<rparr>)"
  let ?exited = "\<lparr>cid = ''c1'', name = CONTAINER_NAME, status = ''exited''\<rparr>"
  let ?w2 = "\<lparr>rt = fake0\<lparr>fk_status := Some ''exited''\<rparr>,
         trace = [Get CONTAINER_NAME, Stop ''c1'', Reload ''c1'', Get CONTAINER_NAME]\<rparr>"
  let ?found = "Inr ?exited :: lib_error + container"
  have a: "client fake_env = Some fake_docker" by (simp add: fake_env_def)
  have b: "call (Get CONTAINER_NAME) (containers_get fake_docker CONTAINER_NAME)
             (snd (stop_container fake_env ?w)) = (?found, ?w2)"
    by code_simp
  have c: "case ?found of Inr c \<Rightarrow> status c = ''exited'' | Inl e \<Rightarrow> is_NotFound e" by simp
  have d: "fst (stop_container fake_env ?w)
             = Inr (Dict [(''status'', Str ''stopped_and_verified'')])"
    by code_simp
  from second_stop_short_circuits [OF a b c]
  have "stop_container fake_env (snd (stop_container fake_env ?w))
     = (Inr (Dict [(''status'', Str ''already_stopped'')]), ?w2)"
    by simp
  with d show ?thesis by blast
qed

section \<open>Data update\<close>

text \<open>
  Claim C5, as stated, fails when the restart that follows the failed write raises:
  with no container present the write fails, the restart raises HTTP 404, and this is
  the error that the operation reports.
\<close>

theorem restart_error_replaces_write_error:
  "update_data fake_env \<lparr>filename = ''dsl.txt'', content = ''{}''\<rparr>
     (start_world (fake0\<lparr>fk_write_error := Some (IOError ''[Errno 13] Permission denied'')\<rparr>))
   = (Inl (HTTPException 404 (Str ''Container not found.'')),
      \<lparr>rt = fake0\<lparr>fk_write_error := Some (IOError ''[Errno 13] Permission denied'')\<rparr>,
       trace = [Get CONTAINER_NAME, Write ''/srv/app/trading_data/dsl.txt'' ''{}'',
                Get CONTAINER_NAME]\<rparr>)"
  by code_simp

text \<open>
  Claim C5, amended. Whenever the file write fails with an I/O error, the restart is
  attempted afterwards: the operation ends in the world that \<^verbatim>\<open>restart_container\<close>
  leaves when it is run after the failed write. When this restart returns, the error
  that the operation reports is the write error.
\<close>

theorem write_failure_restarts_and_reports:
  assumes "stop_container E w = (Inr stopped, w1)"
    and "call (Write (os_path_join (HOST_DATA_PATH E) (filename request)) (content request))
           (open_write E (os_path_join (HOST_DATA_PATH E) (filename request)) (content request))
           w1 = (Inl e, w2)"
    and "is_IOError e"
  shows "snd (update_data E request w) = snd (restart_container E w2)
       \<and> (fst (restart_container E w2) = Inr restarted \<longrightarrow>
            fst (update_data E request w) =
              Inl (HTTPException 500 (Str (''Failed to write to file: '' @ str_of e))))"
  using assms by (auto simp: update_data_def Let_def split: prod.splits sum.splits)

theorem write_failure_restarts_and_reports_witness:
  "snd (update_data fake_env \<lparr>filename = ''dsl.txt'', content = ''{}''\<rparr>
          (start_world (fake0\<lparr>fk_status := Some ''running'', fk_script := [''exited'', ''running''],
             fk_write_error := Some (IOError ''[Errno 13] Permission denied'')\<rparr>)))
     = \<lparr>rt = fake0\<lparr>fk_status := Some ''running'',
               fk_write_error := Some (IOError ''[Errno 13] Permission denied'')\<rparr>,
        trace = [Get CONTAINER_NAME, Stop ''c1'', Reload ''c1'',
                 Write ''/srv/app/trading_data/dsl.txt'' ''{}'',
                 Get CONTAINER_NAME, Restart ''c1'', Sleep 1, Reload ''c1'']\<rparr>
   \<and> fst (update_data fake_env \<lparr>filename = ''dsl.txt'', content = ''{}''\<rparr>
          (start_world (fake0\<lparr>fk_status := Some ''running'', fk_script := [''exited'', ''running''],
             fk_write_error := Some (IOError ''[Errno 13] Permission denied'')\<rparr>)))
     = Inl (HTTPException 500 (Str ''Failed to write to file: [Errno 13] Permission denied''))"
proof -
  let ?err = "IOError ''[Errno 13] Permission denied''"
  let ?req = "\<lparr>filename = ''dsl.txt'', content = ''{}''\<rparr>"
  let ?w = "start_world (fake0\<lparr>fk_status := Some ''running'',
              fk_script := [''exited'', ''running''], fk_write_error := Some ?err\<rparr>)"
  let ?F1 = "fake0\<lparr>fk_status := Some ''exited'', fk_script := [''running''],
               fk_write_error := Some ?err\<rparr>"
  let ?w1 = "\<lparr>rt = ?F1, trace = [Get CONTAINER_NAME, Stop ''c1'', Reload ''c1'']\<rparr>"
  let ?w2 = "\<lparr>rt = ?F1, trace = [Get CONTAINER_NAME, Stop ''c1'', Reload ''c1'',
                                  Write ''/srv/app/trading_data/dsl.txt'' ''{}'']\<rparr>"
  let ?w3 = "\<lparr>rt = fake0\<lparr>fk_status := Some ''running'', fk_write_error := Some ?err\<rparr>,
        trace = [Get CONTAINER_NAME, Stop ''c1'', Reload ''c1'',
                 Write ''/srv/app/trading_data/dsl.txt'' ''{}'',
                 Get CONTAINER_NAME, Restart ''c1'', Sleep 1, Reload ''c1'']\<rparr>"
  have a: "stop_container fake_env ?w
             = (Inr (Dict [(''status'', Str ''stopped_and_verified'')]), ?w1)"
    by code_simp
  have b: "call (Write (os_path_join (HOST_DATA_PATH fake_env) (filename ?req)) (content ?req))
             (open_write fake_env (os_path_join (HOST_DATA_PATH fake_env) (filename ?req))
                (content ?req)) ?w1 = (Inl ?err, ?w2)"
    by code_simp
  have c: "is_IOError ?err" by simp
  have d: "restart_container fake_env ?w2 =
             (Inr (Dict [(''status'', Str ''restarted_and_running'')]), ?w3)"
    by code_simp
  from write_failure_restarts_and_reports
         [OF a b c, of "Dict [(''status'', Str ''restarted_and_running'')]"] d
  show ?thesis by simp
qed

lemma os_path_join_absolute: "os_path_join a (CHR ''/'' # b) = CHR ''/'' # b"
  by (simp add: os_path_join_def)

text \<open>
  Claim C9. A file name that starts with a slash replaces the host data directory in
  the joined path: the request with file name \<^verbatim>\<open>/etc/cron.d/job\<close> stops the container,
  writes the content to \<^verbatim>\<open>/etc/cron.d/job\<close>, which does not lie under the host data
  directory, and restarts the container.
\<close>

theorem absolute_filename_leaves_data_directory:
  "update_data fake_env \<lparr>filename = ''/etc/cron.d/job'', content = ''payload''\<rparr>
     (start_world (fake0\<lparr>fk_status := Some ''running'', fk_script := [''exited'', ''running'']\<rparr>))
   = (Inr (Dict [(''status'', Str ''data_updated_and_restarted''),
                 (''filename'', Str ''/etc/cron.d/job'')]),
      \<lparr>rt = fake0\<lparr>fk_status := Some ''running'',
               fk_files := [(''/etc/cron.d/job'', ''payload'')]\<rparr>,
       trace = [Get CONTAINER_NAME, Stop ''c1'', Reload ''c1'',
                Write ''/etc/cron.d/job'' ''payload'',
                Get CONTAINER_NAME, Restart ''c1'', Sleep 1, Reload ''c1'']\<rparr>)
   \<and> \<not> lies_under (HOST_DATA_PATH fake_env) ''/etc/cron.d/job''"
  by code_simp

end
